theory Spec2Isabelle
  imports Main
begin

section \<open>Data model\<close>

text \<open>
  The fulfillment workflow of \<^verbatim>\<open>src/App.js\<close>: the handlers that move an order or a checkup
  appointment between statuses, credit coin balances and append ledger entries.

  The persistent document store, the clock and the builtins of the JavaScript runtime are
  collaborators of the handlers, not code of the repository:
  \<^item> the store is opened with \<^verbatim>\<open>getFirestore(app)\<close> and its default settings (line 113). An
    update merges the given fields into an existing document; it raises, before anything is
    written, when a field of the update object is \<^verbatim>\<open>undefined\<close>, and it raises when the
    document does not exist. The handler's \<^verbatim>\<open>catch\<close> reports either;
  \<^item> \<^verbatim>\<open>serverTimestamp()\<close> is the field \<open>now\<close> of the context;
  \<^item> \<^verbatim>\<open>JSON.parse\<close>, \<^verbatim>\<open>JSON.stringify\<close> and \<^verbatim>\<open>parseInt\<close> are fields of the context, so every
    theorem holds for whatever these builtins compute. \<open>None\<close> is a raised exception for
    \<^verbatim>\<open>JSON.parse\<close> and \<^verbatim>\<open>NaN\<close> for \<^verbatim>\<open>parseInt\<close>.
  Identifiers are strings; an absent (\<^verbatim>\<open>undefined\<close>) field is \<open>None\<close>. Coin amounts are
  integers held in doubles: a sum is rounded to 53 significant bits, as the addition of the
  runtime does (magnitudes beyond the range of a double are not modelled).
\<close>

type_synonym uid = string
type_synonym timestamp = nat

text \<open>The object a QR text parses to: \<^verbatim>\<open>{orderId, patientOfferId, salespersonId, doctorId}\<close>.\<close>

record qrData =
  qr_orderId :: "string option"
  qr_patientOfferId :: "string option"
  qr_salespersonId :: "string option"
  qr_doctorId :: "string option"

text \<open>
  A fulfillment document (\<^verbatim>\<open>docSnap.data()\<close>): an order or a patient offer. Only the fields
  that the handlers below read or write are kept.
\<close>

record fdoc =
  idField :: "string option"
  productId :: "string option"
  customerId :: "string option"
  patientId :: "string option"
  doctorId :: "string option"
  reason :: "string option"
  salespersonId :: "string option"
  status :: string
  pickupTime :: "timestamp option"
  acceptedOn :: "timestamp option"
  deliveredDate :: "timestamp option"
  cashReceived :: "bool option"
  paymentConfirmed :: "bool option"
  qrContent :: "string option"

record product =
  p_id :: string
  p_name :: string
  coinsAssigned :: "int option"

record profile =
  coins :: "int option"

record txn =
  txn_type :: string
  amount :: int
  sourceId :: string
  targetId :: string
  txn_orderId :: "string option"
  txn_patientOfferId :: "string option"
  date :: timestamp
  description :: string

text \<open>
  The collections the handlers touch:
  \<^verbatim>\<open>users/{uid}/orders\<close>, \<^verbatim>\<open>public/data/allOrders\<close> (in query order, by document id),
  \<^verbatim>\<open>public/data/patientOffers\<close>, \<^verbatim>\<open>users/{uid}/profile/{uid}\<close> and
  \<^verbatim>\<open>users/{uid}/transactions\<close>.
\<close>

record store =
  userOrders :: "uid \<Rightarrow> string \<rightharpoonup> fdoc"
  allOrders :: "(string \<times> fdoc) list"
  patientOffers :: "string \<rightharpoonup> fdoc"
  profiles :: "uid \<rightharpoonup> profile"
  transactions :: "uid \<Rightarrow> txn list"

text \<open>What a handler closes over: the session, the catalog, the clock and the builtins.\<close>

record ctx =
  dbReady :: bool
  userId :: string
  now :: timestamp
  products :: "product list"
  JSON_parse :: "string \<Rightarrow> qrData option"
  JSON_stringify :: "qrData \<Rightarrow> string"
  parseInt :: "string \<Rightarrow> int option"

text \<open>
  The outcome a handler reports through \<^verbatim>\<open>displayMessage\<close>, named after the error taxonomy;
  the message of each is written at the branch that produces it. \<open>Failed\<close> is the
  \<^verbatim>\<open>catch\<close> branch (\<^verbatim>\<open>Failed to ...: error.message\<close>), \<open>NotReady\<close> a silent \<^verbatim>\<open>return\<close>.
\<close>

datatype failure =
  NotFound | Unauthorized | InvalidState | AlreadyAssigned | TokenMismatch
  | MalformedToken | ValidationError | Failed | NotReady

type_synonym 'a result = "failure + 'a"

datatype rtype = OrderT | AppointmentT

datatype docRef = UserOrderDoc uid string | AllOrdersDoc string | OfferDoc string

section \<open>The store\<close>

text \<open>JavaScript truthiness of a string-or-undefined value, and its interpolation in a template.\<close>

definition truthy :: "string option \<Rightarrow> bool" where
  "truthy v = (case v of None \<Rightarrow> False | Some s \<Rightarrow> s \<noteq> [])"

definition js_string :: "string option \<Rightarrow> string" where
  "js_string v = (case v of None \<Rightarrow> ''undefined'' | Some s \<Rightarrow> s)"

fun getDoc :: "store \<Rightarrow> docRef \<Rightarrow> fdoc option" where
  "getDoc st (UserOrderDoc u k) = userOrders st u k"
| "getDoc st (AllOrdersDoc k) = map_of (allOrders st) k"
| "getDoc st (OfferDoc k) = patientOffers st k"

fun writeDoc :: "docRef \<Rightarrow> fdoc \<Rightarrow> store \<Rightarrow> store" where
  "writeDoc (UserOrderDoc u k) d st =
     st\<lparr>userOrders := (userOrders st)(u := (userOrders st u)(k \<mapsto> d))\<rparr>"
| "writeDoc (AllOrdersDoc k) d st =
     st\<lparr>allOrders := map (\<lambda>(k', d'). if k' = k then (k', d) else (k', d')) (allOrders st)\<rparr>"
| "writeDoc (OfferDoc k) d st = st\<lparr>patientOffers := (patientOffers st)(k \<mapsto> d)\<rparr>"

text \<open>
  One field of an update object. The two flags of the confirmation are written as
  \<^verbatim>\<open>true\<close> or \<^verbatim>\<open>undefined\<close> (lines 1094-1095); \<open>None\<close> is \<^verbatim>\<open>undefined\<close>.
\<close>

datatype fieldWrite =
  W_status string
  | W_salespersonId string
  | W_pickupTime timestamp
  | W_acceptedOn timestamp
  | W_deliveredDate timestamp
  | W_cashReceived "bool option"
  | W_paymentConfirmed "bool option"
  | W_qrContent string

fun isUndefined :: "fieldWrite \<Rightarrow> bool" where
  "isUndefined (W_cashReceived None) = True"
| "isUndefined (W_paymentConfirmed None) = True"
| "isUndefined w = False"

fun applyWrite :: "fieldWrite \<Rightarrow> fdoc \<Rightarrow> fdoc" where
  "applyWrite (W_status v) d = d\<lparr>status := v\<rparr>"
| "applyWrite (W_salespersonId v) d = d\<lparr>salespersonId := Some v\<rparr>"
| "applyWrite (W_pickupTime v) d = d\<lparr>pickupTime := Some v\<rparr>"
| "applyWrite (W_acceptedOn v) d = d\<lparr>acceptedOn := Some v\<rparr>"
| "applyWrite (W_deliveredDate v) d = d\<lparr>deliveredDate := Some v\<rparr>"
| "applyWrite (W_cashReceived v) d = d\<lparr>cashReceived := v\<rparr>"
| "applyWrite (W_paymentConfirmed v) d = d\<lparr>paymentConfirmed := v\<rparr>"
| "applyWrite (W_qrContent v) d = d\<lparr>qrContent := Some v\<rparr>"

definition mergeFields :: "fieldWrite list \<Rightarrow> fdoc \<Rightarrow> fdoc" where
  "mergeFields ws d = fold applyWrite ws d"

text \<open>
  \<^verbatim>\<open>updateDoc(ref, fields)\<close> under the default settings: an \<^verbatim>\<open>undefined\<close> field value is
  refused when the update object is validated, before the document is looked at
  (\<^verbatim>\<open>Unsupported field value: undefined\<close>); otherwise the fields are merged into the existing
  document, and the call raises when there is none. \<open>None\<close> is the raised exception.
\<close>

definition updateDoc :: "docRef \<Rightarrow> fieldWrite list \<Rightarrow> store \<Rightarrow> store option" where
  "updateDoc r ws st =
     (if list_ex isUndefined ws then None
      else (case getDoc st r of
              None \<Rightarrow> None
            | Some d \<Rightarrow> Some (writeDoc r (mergeFields ws d) st)))"

text \<open>
  The sum of two integers held in doubles: exact below \<open>2 ^ 53\<close>, and rounded to the nearest
  multiple of the unit in the last place, ties to even, from there on.
\<close>

function shiftOf :: "int \<Rightarrow> nat" where
  "shiftOf a = (if a < 2 ^ 53 then 0 else Suc (shiftOf (a div 2)))"
  by pat_completeness auto
termination
  by (relation "measure nat") auto

declare shiftOf.simps [simp del]

definition round53 :: "int \<Rightarrow> int" where
  "round53 x =
     (if \<bar>x\<bar> < 2 ^ 53 then x
      else (let a = \<bar>x\<bar>; e = shiftOf a; q = a div 2 ^ e; r = a mod 2 ^ e; h = 2 ^ (e - 1);
                q' = (if h < r \<or> (r = h \<and> odd q) then q + 1 else q)
            in sgn x * (q' * 2 ^ e)))"

definition js_add_or :: "int option \<Rightarrow> int \<Rightarrow> int" where
  "js_add_or x n =
     (case x of None \<Rightarrow> n | Some c \<Rightarrow> if round53 (c + n) = 0 then n else round53 (c + n))"

text \<open>
  \<^verbatim>\<open>updateDoc(profileRef, {coins: (await getDoc(profileRef)).data()?.coins + n || n})\<close>
  with \<^verbatim>\<open>profileRef = doc(db, `.../users/${target}/profile`, target)\<close>. Building the
  reference raises when \<open>target\<close> is \<^verbatim>\<open>undefined\<close> or empty, the update when the profile
  does not exist.
\<close>

definition addCoins :: "string option \<Rightarrow> int \<Rightarrow> store \<Rightarrow> store option" where
  "addCoins target n st =
     (case target of
        None \<Rightarrow> None
      | Some u \<Rightarrow>
          if u = [] then None
          else (case profiles st u of
                  None \<Rightarrow> None
                | Some p \<Rightarrow>
                    Some (st\<lparr>profiles := (profiles st)(u \<mapsto> p\<lparr>coins := Some (js_add_or (coins p) n)\<rparr>)\<rparr>)))"

text \<open>\<^verbatim>\<open>addDoc(collection(db, `.../users/${u}/transactions`), t)\<close>.\<close>

definition addTransaction :: "uid \<Rightarrow> txn \<Rightarrow> store \<Rightarrow> store" where
  "addTransaction u t st = st\<lparr>transactions := (transactions st)(u := transactions st u @ [t])\<rparr>"

text \<open>The balance a dashboard shows: \<^verbatim>\<open>docSnap.data().coins || 0\<close>, and \<open>0\<close> without a profile.\<close>

definition coinBalance :: "store \<Rightarrow> uid \<Rightarrow> int" where
  "coinBalance st u =
     (case profiles st u of
        None \<Rightarrow> 0
      | Some p \<Rightarrow> (case coins p of None \<Rightarrow> 0 | Some c \<Rightarrow> c))"

section \<open>Customer: confirming a delivery or a checkup\<close>

text \<open>Lines 1044-1055: which document the QR text names, under the confirming user's path.\<close>

definition confirmTarget :: "ctx \<Rightarrow> qrData \<Rightarrow> (rtype \<times> docRef) option" where
  "confirmTarget c q =
     (if truthy (qr_orderId q) then Some (OrderT, UserOrderDoc (userId c) (js_string (qr_orderId q)))
      else if truthy (qr_patientOfferId q) then Some (AppointmentT, OfferDoc (js_string (qr_patientOfferId q)))
      else None)"

text \<open>
  Lines 1091-1097: the update object of the status write. \<^verbatim>\<open>cashReceived\<close> is \<^verbatim>\<open>true\<close> for an
  order and \<^verbatim>\<open>undefined\<close> otherwise, \<^verbatim>\<open>paymentConfirmed\<close> is \<^verbatim>\<open>true\<close> for an appointment and
  \<^verbatim>\<open>undefined\<close> otherwise.
\<close>

definition confirmFields :: "ctx \<Rightarrow> rtype \<Rightarrow> string \<Rightarrow> fieldWrite list" where
  "confirmFields c t qrCodeInput =
     [W_status (if t = OrderT then ''delivered'' else ''completed''),
      W_deliveredDate (now c),
      W_cashReceived (if t = OrderT then Some True else None),
      W_paymentConfirmed (if t = AppointmentT then Some True else None),
      W_qrContent qrCodeInput]"

text \<open>The balance update followed by the ledger append; the first may raise.\<close>

definition creditAndLog :: "string option \<Rightarrow> int \<Rightarrow> txn \<Rightarrow> store \<Rightarrow> unit result \<times> store" where
  "creditAndLog target n t st =
     (case addCoins target n st of
        None \<Rightarrow> (Inl Failed, st)
      | Some st1 \<Rightarrow> (Inr (), addTransaction (js_string target) t st1))"

definition checkupCoins :: int where
  "checkupCoins = 50"

text \<open>Lines 1099-1136: the coin transfer for a product, the fixed reward for a checkup.\<close>

definition recordPayment :: "ctx \<Rightarrow> rtype \<Rightarrow> qrData \<Rightarrow> fdoc \<Rightarrow> store \<Rightarrow> unit result \<times> store" where
  "recordPayment c t q d st =
     (case t of
        OrderT \<Rightarrow>
          (case find (\<lambda>p. Some (p_id p) = productId d) (products c) of
             None \<Rightarrow> (Inr (), st)
           | Some p \<Rightarrow>
               (case coinsAssigned p of
                  None \<Rightarrow> (Inr (), st)
                | Some n \<Rightarrow>
                    if n > 0 then
                      creditAndLog (qr_salespersonId q) n
                        \<lparr>txn_type = ''coin_transfer'', amount = n, sourceId = userId c,
                         targetId = js_string (qr_salespersonId q), txn_orderId = qr_orderId q,
                         txn_patientOfferId = None, date = now c,
                         description = ''Coins for product delivery: '' @ p_name p\<rparr> st
                    else (Inr (), st)))
      | AppointmentT \<Rightarrow>
          creditAndLog (qr_salespersonId q) checkupCoins
            \<lparr>txn_type = ''checkup_payment'', amount = checkupCoins, sourceId = userId c,
             targetId = js_string (qr_salespersonId q), txn_orderId = None,
             txn_patientOfferId = qr_patientOfferId q, date = now c,
             description = ''Coins for patient checkup: '' @ js_string (reason d)\<rparr> st)"

text \<open>Lines 1064-1136, once the document is loaded.\<close>

definition confirmLoaded ::
  "ctx \<Rightarrow> string \<Rightarrow> qrData \<Rightarrow> rtype \<Rightarrow> docRef \<Rightarrow> fdoc \<Rightarrow> store \<Rightarrow> unit result \<times> store" where
  "confirmLoaded c qrCodeInput q t r d st =
     \<comment> \<open>This order is not for your account.\<close>
     (if t = OrderT \<and> customerId d \<noteq> Some (userId c) then (Inl Unauthorized, st)
     \<comment> \<open>This appointment is not for your account.\<close>
      else if t = AppointmentT \<and> patientId d \<noteq> Some (userId c) then (Inl Unauthorized, st)
     \<comment> \<open>Order is not in 'in delivery' status.\<close>
      else if t = OrderT \<and> status d \<noteq> ''in_delivery'' then (Inl InvalidState, st)
     \<comment> \<open>Appointment is not in 'assigned to salesperson' status.\<close>
      else if t = AppointmentT \<and> status d \<noteq> ''assigned_to_salesperson'' then (Inl InvalidState, st)
     \<comment> \<open>QR code does not match the assigned salesperson.\<close>
      else if salespersonId d \<noteq> qr_salespersonId q then (Inl TokenMismatch, st)
      else (case updateDoc r (confirmFields c t qrCodeInput) st of
              None \<Rightarrow> (Inl Failed, st)
            | Some st1 \<Rightarrow> recordPayment c t q d st1))"

definition handleConfirmTransferAndPayment :: "ctx \<Rightarrow> string \<Rightarrow> store \<Rightarrow> unit result \<times> store" where
  "handleConfirmTransferAndPayment c qrCodeInput st =
     \<comment> \<open>Please enter QR code content.\<close>
     (if \<not> dbReady c \<or> userId c = [] \<or> qrCodeInput = [] then (Inl ValidationError, st)
      else (case JSON_parse c qrCodeInput of
              None \<Rightarrow> (Inl Failed, st)
            | Some q \<Rightarrow>
                (case confirmTarget c q of
                   \<comment> \<open>Invalid QR code content.\<close>
                   None \<Rightarrow> (Inl MalformedToken, st)
                 | Some (t, r) \<Rightarrow>
                     (case getDoc st r of
                        \<comment> \<open>Order/Appointment not found.\<close>
                        None \<Rightarrow> (Inl NotFound, st)
                      | Some d \<Rightarrow> confirmLoaded c qrCodeInput q t r d st))))"

section \<open>Customer: donating coins\<close>

definition handleDonateCoins :: "ctx \<Rightarrow> string \<Rightarrow> string \<Rightarrow> store \<Rightarrow> unit result \<times> store" where
  "handleDonateCoins c selectedInstitutionForDonation amountToDonate st =
     \<comment> \<open>Please select an institution and enter a valid amount.\<close>
     (if \<not> dbReady c \<or> userId c = [] \<or> selectedInstitutionForDonation = [] \<or> amountToDonate = []
      then (Inl ValidationError, st)
      else (case parseInt c amountToDonate of
              \<comment> \<open>Amount to donate must be a positive number.\<close>
              None \<Rightarrow> (Inl ValidationError, st)
            | Some n \<Rightarrow>
                if n \<le> 0 then (Inl ValidationError, st)
                else creditAndLog (Some selectedInstitutionForDonation) n
                       \<lparr>txn_type = ''donation'', amount = n, sourceId = userId c,
                        targetId = selectedInstitutionForDonation, txn_orderId = None,
                        txn_patientOfferId = None, date = now c,
                        description = ''Donation from customer '' @ userId c\<rparr> st))"

section \<open>Salesperson: taking an order or an appointment\<close>

text \<open>
  Lines 1510-1539: an order is looked up in the global collection by its \<^verbatim>\<open>id\<close> field
  (\<^verbatim>\<open>orderSnapshot.docs[0]\<close>), a patient offer by its document id.
\<close>

definition takeTarget :: "qrData \<Rightarrow> store \<Rightarrow> failure + (rtype \<times> docRef)" where
  "takeTarget q st =
     (if truthy (qr_orderId q) then
        (case filter (\<lambda>(k, d). idField d = Some (js_string (qr_orderId q))) (allOrders st) of
           \<comment> \<open>Order not found or not accessible.\<close>
           [] \<Rightarrow> Inl NotFound
         | (k, d) # _ \<Rightarrow> Inr (OrderT, AllOrdersDoc k))
      else if truthy (qr_patientOfferId q) then Inr (AppointmentT, OfferDoc (js_string (qr_patientOfferId q)))
      \<comment> \<open>Invalid QR code content.\<close>
      else Inl MalformedToken)"

definition takeFields :: "ctx \<Rightarrow> rtype \<Rightarrow> fieldWrite list" where
  "takeFields c t =
     [W_salespersonId (userId c),
      W_status (if t = OrderT then ''in_delivery'' else ''assigned_to_salesperson''),
      W_pickupTime (now c)]"

definition takeLoaded :: "ctx \<Rightarrow> rtype \<Rightarrow> docRef \<Rightarrow> fdoc \<Rightarrow> store \<Rightarrow> unit result \<times> store" where
  "takeLoaded c t r d st =
     \<comment> \<open>Order is not pending salesperson pickup.\<close>
     (if t = OrderT \<and> status d \<noteq> ''pending_salesperson_pickup'' then (Inl InvalidState, st)
     \<comment> \<open>Appointment is not in 'accepted' status.\<close>
      else if t = AppointmentT \<and> status d \<noteq> ''accepted'' then (Inl InvalidState, st)
     \<comment> \<open>This has already been assigned to a salesperson.\<close>
      else if truthy (salespersonId d) then (Inl AlreadyAssigned, st)
      else (case updateDoc r (takeFields c t) st of
              None \<Rightarrow> (Inl Failed, st)
            | Some st1 \<Rightarrow> (Inr (), st1)))"

definition handleTakeOrderAppointment :: "ctx \<Rightarrow> string \<Rightarrow> store \<Rightarrow> unit result \<times> store" where
  "handleTakeOrderAppointment c qrCodeInput st =
     \<comment> \<open>Please enter QR code content.\<close>
     (if \<not> dbReady c \<or> userId c = [] \<or> qrCodeInput = [] then (Inl ValidationError, st)
      else (case JSON_parse c qrCodeInput of
              None \<Rightarrow> (Inl Failed, st)
            | Some q \<Rightarrow>
                (case takeTarget q st of
                   Inl e \<Rightarrow> (Inl e, st)
                 | Inr (t, r) \<Rightarrow>
                     (case getDoc st r of
                        \<comment> \<open>Order/Appointment not found.\<close>
                        None \<Rightarrow> (Inl NotFound, st)
                      | Some d \<Rightarrow> takeLoaded c t r d st))))"

section \<open>Handoff tokens and the doctor's acceptance\<close>

definition generateQRCodeContent :: "ctx \<Rightarrow> qrData \<Rightarrow> string" where
  "generateQRCodeContent c qrData = JSON_stringify c qrData"

text \<open>
  An entry of the salesperson's list of assigned items, as \<^verbatim>\<open>handleGenerateCustomerQr\<close>
  reads it: \<^verbatim>\<open>item.orderId\<close> and \<^verbatim>\<open>item.id\<close>.
\<close>

record item =
  item_orderId :: "string option"
  item_id :: "string option"

text \<open>
  The two minting handlers write no document: they set what the QR dialog shows
  (\<^verbatim>\<open>setCurrentQrContent\<close>), which is the value returned here beside the store.
\<close>

definition handleGenerateCustomerQr :: "ctx \<Rightarrow> item \<Rightarrow> store \<Rightarrow> string \<times> store" where
  "handleGenerateCustomerQr c i st =
     (generateQRCodeContent c
        (if truthy (item_orderId i)
         then \<lparr>qr_orderId = item_orderId i, qr_patientOfferId = None,
               qr_salespersonId = Some (userId c), qr_doctorId = None\<rparr>
         else \<lparr>qr_orderId = None, qr_patientOfferId = item_id i,
               qr_salespersonId = Some (userId c), qr_doctorId = None\<rparr>), st)"

definition handleGenerateSalespersonQr :: "ctx \<Rightarrow> string \<Rightarrow> store \<Rightarrow> string \<times> store" where
  "handleGenerateSalespersonQr c offerId st =
     (generateQRCodeContent c
        \<lparr>qr_orderId = None, qr_patientOfferId = Some offerId,
         qr_salespersonId = None, qr_doctorId = Some (userId c)\<rparr>, st)"

text \<open>Lines 1767-1784: the status write, then the QR text for the salesperson.\<close>

definition handleAcceptOffer :: "ctx \<Rightarrow> string \<Rightarrow> store \<Rightarrow> string result \<times> store" where
  "handleAcceptOffer c offerId st =
     (if \<not> dbReady c \<or> userId c = [] then (Inl NotReady, st)
      else (case updateDoc (OfferDoc offerId) [W_status ''accepted'', W_acceptedOn (now c)] st of
              None \<Rightarrow> (Inl Failed, st)
            | Some st1 \<Rightarrow>
                (Inr (generateQRCodeContent c
                        \<lparr>qr_orderId = None, qr_patientOfferId = Some offerId,
                         qr_salespersonId = None, qr_doctorId = Some (userId c)\<rparr>), st1)))"

text \<open>Line 1792: the offers for which the doctor's dashboard renders the accept button.\<close>

definition pendingOffers :: "ctx \<Rightarrow> fdoc list \<Rightarrow> fdoc list" where
  "pendingOffers c offers = filter (\<lambda>offer. status offer = ''pending'' \<and> doctorId offer = Some (userId c)) offers"

section \<open>A sample deployment\<close>

text \<open>
  A small store and session on which the theorems below are instantiated: customer \<open>C\<close>,
  salesperson \<open>S\<close>, doctor \<open>D\<close>, institution \<open>I\<close>; two orders in delivery and one delivered,
  one order awaiting pickup in the global collection, and four patient offers.
\<close>

definition blankDoc :: fdoc where
  "blankDoc =
     \<lparr>idField = None, productId = None, customerId = None, patientId = None, doctorId = None,
      reason = None, salespersonId = None, status = [], pickupTime = None, acceptedOn = None,
      deliveredDate = None, cashReceived = None, paymentConfirmed = None, qrContent = None\<rparr>"

definition demoProducts :: "product list" where
  "demoProducts =
     [\<lparr>p_id = ''P1'', p_name = ''Thermometer'', coinsAssigned = Some 5\<rparr>,
      \<lparr>p_id = ''P0'', p_name = ''Leaflet'', coinsAssigned = Some 0\<rparr>]"

definition demoParse :: "string \<Rightarrow> qrData option" where
  "demoParse s =
     (if s = ''order o1 via S'' then
        Some \<lparr>qr_orderId = Some ''o1'', qr_patientOfferId = None,
              qr_salespersonId = Some ''S'', qr_doctorId = None\<rparr>
      else if s = ''order o2 via S'' then
        Some \<lparr>qr_orderId = Some ''o2'', qr_patientOfferId = None,
              qr_salespersonId = Some ''S'', qr_doctorId = None\<rparr>
      else if s = ''order o3 via S'' then
        Some \<lparr>qr_orderId = Some ''o3'', qr_patientOfferId = None,
              qr_salespersonId = Some ''S'', qr_doctorId = None\<rparr>
      else if s = ''order o9'' then
        Some \<lparr>qr_orderId = Some ''o9'', qr_patientOfferId = None,
              qr_salespersonId = None, qr_doctorId = None\<rparr>
      else if s = ''offer a1 via S'' then
        Some \<lparr>qr_orderId = None, qr_patientOfferId = Some ''a1'',
              qr_salespersonId = Some ''S'', qr_doctorId = None\<rparr>
      else if s = ''offer a4 via S'' then
        Some \<lparr>qr_orderId = None, qr_patientOfferId = Some ''a4'',
              qr_salespersonId = Some ''S'', qr_doctorId = None\<rparr>
      else if s = ''offer a2 from D'' then
        Some \<lparr>qr_orderId = None, qr_patientOfferId = Some ''a2'',
              qr_salespersonId = None, qr_doctorId = Some ''D''\<rparr>
      else None)"

definition demoStringify :: "qrData \<Rightarrow> string" where
  "demoStringify q =
     js_string (qr_orderId q) @ ''/'' @ js_string (qr_patientOfferId q) @ ''/'' @
     js_string (qr_salespersonId q) @ ''/'' @ js_string (qr_doctorId q)"

definition demoParseInt :: "string \<Rightarrow> int option" where
  "demoParseInt s = (if s = ''20'' then Some 20 else if s = ''0'' then Some 0 else None)"

definition demoCtx :: "string \<Rightarrow> timestamp \<Rightarrow> ctx" where
  "demoCtx u t =
     \<lparr>dbReady = True, userId = u, now = t, products = demoProducts, JSON_parse = demoParse,
      JSON_stringify = demoStringify, parseInt = demoParseInt\<rparr>"

definition demoStore :: store where
  "demoStore =
     \<lparr>userOrders =
        (\<lambda>u. if u = ''C'' then
                [''o1'' \<mapsto> blankDoc\<lparr>productId := Some ''P1'', customerId := Some ''C'',
                                   salespersonId := Some ''S'', status := ''in_delivery''\<rparr>,
                 ''o2'' \<mapsto> blankDoc\<lparr>productId := Some ''P0'', customerId := Some ''C'',
                                   salespersonId := Some ''S'', status := ''in_delivery''\<rparr>,
                 ''o3'' \<mapsto> blankDoc\<lparr>productId := Some ''P1'', customerId := Some ''C'',
                                   salespersonId := Some ''S'', status := ''delivered'',
                                   deliveredDate := Some 2, cashReceived := Some True,
                                   qrContent := Some ''order o3 via S''\<rparr>]
              else Map.empty),
      allOrders =
        [(''g1'', blankDoc\<lparr>idField := Some ''o9'', productId := Some ''P1'', customerId := Some ''C'',
                          status := ''pending_salesperson_pickup''\<rparr>)],
      patientOffers =
        [''a1'' \<mapsto> blankDoc\<lparr>patientId := Some ''C'', doctorId := Some ''D'', reason := Some ''cough'',
                           salespersonId := Some ''S'', status := ''assigned_to_salesperson''\<rparr>,
         ''a2'' \<mapsto> blankDoc\<lparr>patientId := Some ''C'', doctorId := Some ''D'', reason := Some ''fever'',
                           status := ''accepted''\<rparr>,
         ''a3'' \<mapsto> blankDoc\<lparr>patientId := Some ''C'', doctorId := Some ''D'', reason := Some ''rash'',
                           status := ''pending''\<rparr>,
         ''a4'' \<mapsto> blankDoc\<lparr>patientId := Some ''C'', doctorId := Some ''D'', reason := Some ''sprain'',
                           salespersonId := Some ''S'', status := ''completed'',
                           deliveredDate := Some 3, paymentConfirmed := Some True,
                           qrContent := Some ''offer a4 via S''\<rparr>],
      profiles = [''S'' \<mapsto> \<lparr>coins = Some 0\<rparr>, ''I'' \<mapsto> \<lparr>coins = Some 0\<rparr>],
      transactions = (\<lambda>u. [])\<rparr>"

section \<open>Facts about the store\<close>

lemmas demo_defs = blankDoc_def demoProducts_def demoParse_def demoStringify_def demoParseInt_def
  demoCtx_def demoStore_def

lemmas confirm_defs = handleConfirmTransferAndPayment_def confirmTarget_def truthy_def js_string_def
  confirmLoaded_def updateDoc_def confirmFields_def

lemmas take_defs = handleTakeOrderAppointment_def takeTarget_def takeLoaded_def takeFields_def
  updateDoc_def mergeFields_def truthy_def js_string_def

lemma map_of_overwrite:
  "map_of xs k = Some d0 \<Longrightarrow>
   map_of (map (\<lambda>(k', d'). if k' = k then (k', d) else (k', d')) xs) k = Some d"
  by (induction xs) (auto split: if_splits)

lemma getDoc_writeDoc_same: "getDoc st r = Some d0 \<Longrightarrow> getDoc (writeDoc r d st) r = Some d"
  by (cases r) (auto simp: map_of_overwrite)

lemma filter_map_same:
  "(\<And>e. e \<in> set xs \<Longrightarrow> P (f e) = P e) \<Longrightarrow> filter P (map f xs) = map f (filter P xs)"
  by (induction xs) auto

lemma takeTarget_after_take:
  assumes tgt: "takeTarget q st = Inr (t, r)"
    and d: "getDoc st r = Some d"
    and uniq: "distinct (map fst (allOrders st))"
  shows "takeTarget q (writeDoc r (mergeFields (takeFields c t) d) st) = Inr (t, r)"
proof (cases "truthy (qr_orderId q)")
  case False
  with tgt show ?thesis
    by (auto simp: takeTarget_def split: if_splits)
next
  case True
  let ?P = "\<lambda>(k, x). idField x = Some (js_string (qr_orderId q))"
  from True tgt obtain k x rest where hit: "filter ?P (allOrders st) = (k, x) # rest"
    and tr: "t = OrderT" "r = AllOrdersDoc k"
    by (auto simp: takeTarget_def split: list.splits)
  let ?f = "\<lambda>(k', d'). if k' = k then (k', mergeFields (takeFields c OrderT) d) else (k', d')"
  have same: "?P (?f e) = ?P e" if "e \<in> set (allOrders st)" for e
  proof (cases e)
    case (Pair k' x')
    show ?thesis
    proof (cases "k' = k")
      case True
      with that Pair uniq have "map_of (allOrders st) k = Some x'"
        by simp
      with d tr have "x' = d" by simp
      with Pair True show ?thesis by (simp add: takeFields_def mergeFields_def)
    next
      case False
      with Pair show ?thesis by simp
    qed
  qed
  have "filter ?P (map ?f (allOrders st)) = map ?f (filter ?P (allOrders st))"
    by (rule filter_map_same) (rule same)
  with hit have "filter ?P (map ?f (allOrders st)) = (k, mergeFields (takeFields c OrderT) d) # map ?f rest"
    by simp
  with True tr show ?thesis
    by (simp add: takeTarget_def)
qed

lemma funpow_fixed: "f x = x \<Longrightarrow> (f ^^ n) x = x"
  by (induction n) auto

text \<open>
  The update object of a confirmation always carries an \<^verbatim>\<open>undefined\<close> flag, so its status
  write raises: a confirmation that passes every check ends in the \<^verbatim>\<open>catch\<close> branch, and
  nothing has been written.
\<close>

lemma confirmFields_undefined: "list_ex isUndefined (confirmFields c t qrCodeInput)"
  by (cases t) (simp_all add: confirmFields_def)

lemma confirm_status_write_raises:
  assumes "dbReady c" "userId c \<noteq> []" "qrCodeInput \<noteq> []"
    and "JSON_parse c qrCodeInput = Some q" "confirmTarget c q = Some (t, r)" "getDoc st r = Some d"
    and "(if t = OrderT then customerId d else patientId d) = Some (userId c)"
    and "status d = (if t = OrderT then ''in_delivery'' else ''assigned_to_salesperson'')"
    and "salespersonId d = qr_salespersonId q"
  shows "handleConfirmTransferAndPayment c qrCodeInput st = (Inl Failed, st)"
  using assms
  by (cases t)
    (simp_all add: handleConfirmTransferAndPayment_def confirmLoaded_def updateDoc_def
      confirmFields_undefined)

lemma handleConfirm_never_succeeds:
  "fst (handleConfirmTransferAndPayment c qrCodeInput st) \<noteq> Inr ()"
  by (auto simp: handleConfirmTransferAndPayment_def confirmLoaded_def updateDoc_def
      confirmFields_undefined split: option.splits)

section \<open>Confirming a delivery\<close>

text \<open>
  C3: an order in status \<open>in_delivery\<close> with salesperson \<open>S\<close> whose product carries 5 coins,
  confirmed by its owning customer \<open>C\<close> with a token naming \<open>S\<close>, should become \<open>delivered\<close>,
  with one \<open>coin_transfer\<close> transaction of amount 5 appended and the balance of \<open>S\<close> grown
  by 5. The handler does not get there: the status write raises on the \<^verbatim>\<open>undefined\<close> value
  of \<^verbatim>\<open>paymentConfirmed\<close>, the confirmation is reported as failed, and the store is as it was,
  so the order is still in delivery, the ledger has no new entry and no balance has changed.
\<close>

theorem confirm_order_fails_at_status_write:
  assumes ready: "dbReady c" "userId c = C" "C \<noteq> []" "qrCodeInput \<noteq> []"
    and tok: "JSON_parse c qrCodeInput = Some q" "qr_orderId q = Some oid" "oid \<noteq> []"
      "qr_salespersonId q = Some S" "S \<noteq> []"
    and ord: "userOrders st C oid = Some d" "customerId d = Some C" "status d = ''in_delivery''"
      "salespersonId d = Some S"
    and prod: "find (\<lambda>p. Some (p_id p) = productId d) (products c) = Some p" "coinsAssigned p = Some 5"
    and prof: "profiles st S = Some pr"
  shows "handleConfirmTransferAndPayment c qrCodeInput st = (Inl Failed, st) \<and>
         map_option status (userOrders (snd (handleConfirmTransferAndPayment c qrCodeInput st)) C oid)
           = Some ''in_delivery'' \<and>
         transactions (snd (handleConfirmTransferAndPayment c qrCodeInput st)) S = transactions st S \<and>
         coinBalance (snd (handleConfirmTransferAndPayment c qrCodeInput st)) S = coinBalance st S"
proof -
  have tgt: "confirmTarget c q = Some (OrderT, UserOrderDoc C oid)"
    using ready tok by (simp add: confirmTarget_def truthy_def js_string_def)
  have doc: "getDoc st (UserOrderDoc C oid) = Some d"
    using ord by simp
  have "handleConfirmTransferAndPayment c qrCodeInput st = (Inl Failed, st)"
    by (rule confirm_status_write_raises
          [where q = q and t = OrderT and r = "UserOrderDoc C oid" and d = d])
      (use ready tok ord tgt doc in simp_all)
  then show ?thesis
    using ord by simp
qed

theorem confirm_order_fails_at_status_write_witness:
  "handleConfirmTransferAndPayment (demoCtx ''C'' 9) ''order o1 via S'' demoStore = (Inl Failed, demoStore) \<and>
   map_option status
     (userOrders (snd (handleConfirmTransferAndPayment (demoCtx ''C'' 9) ''order o1 via S'' demoStore)) ''C'' ''o1'')
     = Some ''in_delivery'' \<and>
   transactions (snd (handleConfirmTransferAndPayment (demoCtx ''C'' 9) ''order o1 via S'' demoStore)) ''S''
     = [] \<and>
   coinBalance (snd (handleConfirmTransferAndPayment (demoCtx ''C'' 9) ''order o1 via S'' demoStore)) ''S'' = 0"
  using confirm_order_fails_at_status_write
    [where c = "demoCtx ''C'' 9" and C = "''C''" and qrCodeInput = "''order o1 via S''"
      and q = "\<lparr>qr_orderId = Some ''o1'', qr_patientOfferId = None,
                qr_salespersonId = Some ''S'', qr_doctorId = None\<rparr>"
      and oid = "''o1''" and S = "''S''" and st = demoStore
      and d = "blankDoc\<lparr>productId := Some ''P1'', customerId := Some ''C'',
                         salespersonId := Some ''S'', status := ''in_delivery''\<rparr>"
      and p = "\<lparr>p_id = ''P1'', p_name = ''Thermometer'', coinsAssigned = Some 5\<rparr>"
      and pr = "\<lparr>coins = Some 0\<rparr>"]
  by (simp add: demo_defs coinBalance_def)

text \<open>
  C10: when the product of the order is missing from the catalog, or carries 0 coins, the
  confirmation should still move the order to \<open>delivered\<close> while crediting nothing. The
  status write raises here as well: the confirmation is reported as failed and the order
  stays in delivery; no balance is credited and no transaction is appended.
\<close>

theorem confirm_without_reward_fails_at_status_write:
  assumes ready: "dbReady c" "userId c = C" "C \<noteq> []" "qrCodeInput \<noteq> []"
    and tok: "JSON_parse c qrCodeInput = Some q" "qr_orderId q = Some oid" "oid \<noteq> []"
    and ord: "userOrders st C oid = Some d" "customerId d = Some C" "status d = ''in_delivery''"
      "salespersonId d = qr_salespersonId q"
    and prod: "find (\<lambda>p. Some (p_id p) = productId d) (products c) = None \<or>
               (\<exists>p. find (\<lambda>p. Some (p_id p) = productId d) (products c) = Some p \<and> coinsAssigned p = Some 0)"
  shows "handleConfirmTransferAndPayment c qrCodeInput st = (Inl Failed, st) \<and>
         map_option status (userOrders (snd (handleConfirmTransferAndPayment c qrCodeInput st)) C oid)
           = Some ''in_delivery'' \<and>
         profiles (snd (handleConfirmTransferAndPayment c qrCodeInput st)) = profiles st \<and>
         transactions (snd (handleConfirmTransferAndPayment c qrCodeInput st)) = transactions st"
proof -
  have tgt: "confirmTarget c q = Some (OrderT, UserOrderDoc C oid)"
    using ready tok by (simp add: confirmTarget_def truthy_def js_string_def)
  have doc: "getDoc st (UserOrderDoc C oid) = Some d"
    using ord by simp
  have "handleConfirmTransferAndPayment c qrCodeInput st = (Inl Failed, st)"
    by (rule confirm_status_write_raises
          [where q = q and t = OrderT and r = "UserOrderDoc C oid" and d = d])
      (use ready tok ord tgt doc in simp_all)
  then show ?thesis
    using ord by simp
qed

theorem confirm_without_reward_fails_at_status_write_witness:
  "handleConfirmTransferAndPayment (demoCtx ''C'' 9) ''order o2 via S'' demoStore = (Inl Failed, demoStore) \<and>
   map_option status
     (userOrders (snd (handleConfirmTransferAndPayment (demoCtx ''C'' 9) ''order o2 via S'' demoStore)) ''C'' ''o2'')
     = Some ''in_delivery''"
  using confirm_without_reward_fails_at_status_write
    [where c = "demoCtx ''C'' 9" and C = "''C''" and qrCodeInput = "''order o2 via S''"
      and q = "\<lparr>qr_orderId = Some ''o2'', qr_patientOfferId = None,
                qr_salespersonId = Some ''S'', qr_doctorId = None\<rparr>"
      and oid = "''o2''" and st = demoStore
      and d = "blankDoc\<lparr>productId := Some ''P0'', customerId := Some ''C'',
                         salespersonId := Some ''S'', status := ''in_delivery''\<rparr>"]
  by (simp add: demo_defs)

section \<open>Confirming a checkup\<close>

text \<open>
  C6: an appointment in status \<open>assigned_to_salesperson\<close> with salesperson \<open>S\<close>, confirmed by
  its patient with a token naming \<open>S\<close>, should become \<open>completed\<close>, with the fixed checkup
  reward added to the balance of \<open>S\<close> and one \<open>checkup_payment\<close> transaction appended. The
  status write raises on the \<^verbatim>\<open>undefined\<close> value of \<^verbatim>\<open>cashReceived\<close>: the confirmation is
  reported as failed and the store is as it was, so the appointment is still assigned, the
  ledger has no new entry and no balance has changed.
\<close>

theorem confirm_checkup_fails_at_status_write:
  assumes ready: "dbReady c" "userId c = P" "P \<noteq> []" "qrCodeInput \<noteq> []"
    and tok: "JSON_parse c qrCodeInput = Some q" "\<not> truthy (qr_orderId q)"
      "qr_patientOfferId q = Some aid" "aid \<noteq> []" "qr_salespersonId q = Some S" "S \<noteq> []"
    and app: "patientOffers st aid = Some d" "patientId d = Some P"
      "status d = ''assigned_to_salesperson''" "salespersonId d = Some S"
    and prof: "profiles st S = Some pr"
  shows "handleConfirmTransferAndPayment c qrCodeInput st = (Inl Failed, st) \<and>
         map_option status (patientOffers (snd (handleConfirmTransferAndPayment c qrCodeInput st)) aid)
           = Some ''assigned_to_salesperson'' \<and>
         transactions (snd (handleConfirmTransferAndPayment c qrCodeInput st)) S = transactions st S \<and>
         coinBalance (snd (handleConfirmTransferAndPayment c qrCodeInput st)) S = coinBalance st S"
proof -
  have tgt: "confirmTarget c q = Some (AppointmentT, OfferDoc aid)"
    using ready tok by (simp add: confirmTarget_def truthy_def js_string_def)
  have doc: "getDoc st (OfferDoc aid) = Some d"
    using app by simp
  have "handleConfirmTransferAndPayment c qrCodeInput st = (Inl Failed, st)"
    by (rule confirm_status_write_raises
          [where q = q and t = AppointmentT and r = "OfferDoc aid" and d = d])
      (use ready tok app tgt doc in simp_all)
  then show ?thesis
    using app by simp
qed

theorem confirm_checkup_fails_at_status_write_witness:
  "handleConfirmTransferAndPayment (demoCtx ''C'' 9) ''offer a1 via S'' demoStore = (Inl Failed, demoStore) \<and>
   map_option status
     (patientOffers (snd (handleConfirmTransferAndPayment (demoCtx ''C'' 9) ''offer a1 via S'' demoStore)) ''a1'')
     = Some ''assigned_to_salesperson'' \<and>
   transactions (snd (handleConfirmTransferAndPayment (demoCtx ''C'' 9) ''offer a1 via S'' demoStore)) ''S''
     = [] \<and>
   coinBalance (snd (handleConfirmTransferAndPayment (demoCtx ''C'' 9) ''offer a1 via S'' demoStore)) ''S'' = 0"
  using confirm_checkup_fails_at_status_write
    [where c = "demoCtx ''C'' 9" and P = "''C''" and qrCodeInput = "''offer a1 via S''"
      and q = "\<lparr>qr_orderId = None, qr_patientOfferId = Some ''a1'',
                qr_salespersonId = Some ''S'', qr_doctorId = None\<rparr>"
      and aid = "''a1''" and S = "''S''" and st = demoStore
      and d = "blankDoc\<lparr>patientId := Some ''C'', doctorId := Some ''D'', reason := Some ''cough'',
                         salespersonId := Some ''S'', status := ''assigned_to_salesperson''\<rparr>"
      and pr = "\<lparr>coins = Some 0\<rparr>"]
  by (simp add: demo_defs coinBalance_def truthy_def)

section \<open>Replay and identity\<close>



text \<open>
  C2, as the handler has it: an order is looked up under the confirming user's own orders, so
  a request for a document that is not there fails with \<open>NotFound\<close>; a confirmation by a user
  other than the owner named on the loaded document fails with \<open>Unauthorized\<close>, whatever the
  token's salesperson and the status of the record. Either way the store is unchanged.
\<close>

theorem confirm_requires_owner:
  assumes ready: "dbReady c" "userId c \<noteq> []" "qrCodeInput \<noteq> []"
    and tok: "JSON_parse c qrCodeInput = Some q" "confirmTarget c q = Some (t, r)"
  shows "(t = OrderT \<longrightarrow> r = UserOrderDoc (userId c) (js_string (qr_orderId q))) \<and>
         (getDoc st r = None \<longrightarrow>
            handleConfirmTransferAndPayment c qrCodeInput st = (Inl NotFound, st)) \<and>
         (\<forall>d. getDoc st r = Some d \<and>
              (if t = OrderT then customerId d else patientId d) \<noteq> Some (userId c) \<longrightarrow>
            handleConfirmTransferAndPayment c qrCodeInput st = (Inl Unauthorized, st))"
proof (intro conjI impI allI)
  assume "t = OrderT"
  with tok(2) show "r = UserOrderDoc (userId c) (js_string (qr_orderId q))"
    by (auto simp: confirmTarget_def split: if_splits)
next
  assume "getDoc st r = None"
  with ready tok show "handleConfirmTransferAndPayment c qrCodeInput st = (Inl NotFound, st)"
    by (simp add: handleConfirmTransferAndPayment_def)
next
  fix d
  assume "getDoc st r = Some d \<and> (if t = OrderT then customerId d else patientId d) \<noteq> Some (userId c)"
  with ready tok show "handleConfirmTransferAndPayment c qrCodeInput st = (Inl Unauthorized, st)"
    by (cases t) (simp_all add: handleConfirmTransferAndPayment_def confirmLoaded_def)
qed

theorem confirm_requires_owner_witness:
  "handleConfirmTransferAndPayment (demoCtx ''X'' 9) ''offer a1 via S'' demoStore
     = (Inl Unauthorized, demoStore) \<and>
   handleConfirmTransferAndPayment (demoCtx ''X'' 9) ''order o1 via S'' demoStore
     = (Inl NotFound, demoStore)"
proof -
  let ?d = "blankDoc\<lparr>patientId := Some ''C'', doctorId := Some ''D'', reason := Some ''cough'',
                     salespersonId := Some ''S'', status := ''assigned_to_salesperson''\<rparr>"
  have offer: "getDoc demoStore (OfferDoc ''a1'') = Some ?d \<and>
      (if AppointmentT = OrderT then customerId ?d else patientId ?d) \<noteq> Some (userId (demoCtx ''X'' 9))"
    by (simp add: demo_defs)
  have order: "getDoc demoStore (UserOrderDoc ''X'' ''o1'') = None"
    by (simp add: demo_defs)
  have "handleConfirmTransferAndPayment (demoCtx ''X'' 9) ''offer a1 via S'' demoStore
      = (Inl Unauthorized, demoStore)"
    using offer
      confirm_requires_owner [where c = "demoCtx ''X'' 9" and qrCodeInput = "''offer a1 via S''"
        and q = "\<lparr>qr_orderId = None, qr_patientOfferId = Some ''a1'',
                  qr_salespersonId = Some ''S'', qr_doctorId = None\<rparr>"
        and t = AppointmentT and r = "OfferDoc ''a1''" and st = demoStore]
    by (simp add: demoCtx_def demoParse_def confirmTarget_def truthy_def js_string_def)
  moreover have "handleConfirmTransferAndPayment (demoCtx ''X'' 9) ''order o1 via S'' demoStore
      = (Inl NotFound, demoStore)"
    using order
      confirm_requires_owner [where c = "demoCtx ''X'' 9" and qrCodeInput = "''order o1 via S''"
        and q = "\<lparr>qr_orderId = Some ''o1'', qr_patientOfferId = None,
                  qr_salespersonId = Some ''S'', qr_doctorId = None\<rparr>"
        and t = OrderT and r = "UserOrderDoc ''X'' ''o1''" and st = demoStore]
    by (simp add: demoCtx_def demoParse_def confirmTarget_def truthy_def js_string_def)
  ultimately show ?thesis by simp
qed

text \<open>
  C2 as stated fails for an order: the order \<open>o1\<close> belongs to \<open>C\<close>, and its confirmation by
  \<open>X\<close> is reported as not found, not as unauthorized.
\<close>

theorem confirm_other_customers_order_not_found:
  "map_option customerId (userOrders demoStore ''C'' ''o1'') = Some (Some ''C'') \<and>
   handleConfirmTransferAndPayment (demoCtx ''X'' 9) ''order o1 via S'' demoStore
     = (Inl NotFound, demoStore)"
  by (simp add: demo_defs confirm_defs)

section \<open>Claiming an order or an appointment\<close>

text \<open>
  C4, as the handler has it: a claim on a record whose \<open>salespersonId\<close> is already set fails
  and leaves the store unchanged, with \<open>AlreadyAssigned\<close> when the record is still in the
  source status of the edge and with \<open>InvalidState\<close> otherwise; and after a successful
  claim, a second claim with the same token fails with \<open>InvalidState\<close>, so of two successive
  claims at most one succeeds.
\<close>

theorem take_rejected_once_assigned:
  assumes ready: "dbReady c" "userId c \<noteq> []" "qrCodeInput \<noteq> []"
    and tok: "JSON_parse c qrCodeInput = Some q"
  shows "(\<forall>t r d. takeTarget q st = Inr (t, r) \<and> getDoc st r = Some d \<and> truthy (salespersonId d) \<longrightarrow>
            handleTakeOrderAppointment c qrCodeInput st =
              (Inl (if status d = (if t = OrderT then ''pending_salesperson_pickup'' else ''accepted'')
                    then AlreadyAssigned else InvalidState), st)) \<and>
         (\<forall>c0 st0. handleTakeOrderAppointment c0 qrCodeInput st0 = (Inr (), st) \<and>
              JSON_parse c0 qrCodeInput = Some q \<and> distinct (map fst (allOrders st0)) \<longrightarrow>
            handleTakeOrderAppointment c qrCodeInput st = (Inl InvalidState, st))"
proof (intro conjI allI impI)
  fix t r d
  assume "takeTarget q st = Inr (t, r) \<and> getDoc st r = Some d \<and> truthy (salespersonId d)"
  with ready tok show "handleTakeOrderAppointment c qrCodeInput st =
      (Inl (if status d = (if t = OrderT then ''pending_salesperson_pickup'' else ''accepted'')
            then AlreadyAssigned else InvalidState), st)"
    by (cases t) (simp_all add: handleTakeOrderAppointment_def takeLoaded_def)
next
  fix c0 st0
  assume first: "handleTakeOrderAppointment c0 qrCodeInput st0 = (Inr (), st) \<and>
      JSON_parse c0 qrCodeInput = Some q \<and> distinct (map fst (allOrders st0))"
  then obtain t r where tgt: "takeTarget q st0 = Inr (t, r)"
    by (auto simp: handleTakeOrderAppointment_def split: if_splits sum.splits)
  with first obtain d where d: "getDoc st0 r = Some d" and loaded: "takeLoaded c0 t r d st0 = (Inr (), st)"
    by (auto simp: handleTakeOrderAppointment_def split: if_splits option.splits)
  from loaded d have st: "st = writeDoc r (mergeFields (takeFields c0 t) d) st0"
    by (auto simp: takeLoaded_def updateDoc_def takeFields_def split: if_splits)
  from tgt d first have tgt': "takeTarget q st = Inr (t, r)"
    unfolding st by (simp add: takeTarget_after_take)
  from d have d': "getDoc st r = Some (mergeFields (takeFields c0 t) d)"
    unfolding st by (rule getDoc_writeDoc_same)
  have "takeLoaded c t r (mergeFields (takeFields c0 t) d) st = (Inl InvalidState, st)"
    by (cases t) (simp_all add: takeLoaded_def takeFields_def mergeFields_def)
  with ready tok tgt' d' show "handleTakeOrderAppointment c qrCodeInput st = (Inl InvalidState, st)"
    by (simp add: handleTakeOrderAppointment_def)
qed

theorem take_rejected_once_assigned_witness:
  "handleTakeOrderAppointment (demoCtx ''S2'' 10) ''offer a1 via S'' demoStore
     = (Inl InvalidState, demoStore) \<and>
   handleTakeOrderAppointment (demoCtx ''S2'' 10) ''offer a1 via S''
       (snd (handleAcceptOffer (demoCtx ''D'' 7) ''a1'' demoStore))
     = (Inl AlreadyAssigned, snd (handleAcceptOffer (demoCtx ''D'' 7) ''a1'' demoStore)) \<and>
   handleTakeOrderAppointment (demoCtx ''S2'' 10) ''order o9''
       (snd (handleTakeOrderAppointment (demoCtx ''S1'' 9) ''order o9'' demoStore))
     = (Inl InvalidState, snd (handleTakeOrderAppointment (demoCtx ''S1'' 9) ''order o9'' demoStore))"
proof -
  let ?q = "\<lparr>qr_orderId = None, qr_patientOfferId = Some ''a1'',
             qr_salespersonId = Some ''S'', qr_doctorId = None\<rparr>"
  let ?d = "blankDoc\<lparr>patientId := Some ''C'', doctorId := Some ''D'', reason := Some ''cough'',
                     salespersonId := Some ''S'', status := ''assigned_to_salesperson''\<rparr>"
  let ?st1 = "snd (handleTakeOrderAppointment (demoCtx ''S1'' 9) ''order o9'' demoStore)"
  let ?st2 = "snd (handleAcceptOffer (demoCtx ''D'' 7) ''a1'' demoStore)"
  have assigned: "takeTarget ?q demoStore = Inr (AppointmentT, OfferDoc ''a1'') \<and>
      getDoc demoStore (OfferDoc ''a1'') = Some ?d \<and> truthy (salespersonId ?d)"
    by (simp add: demo_defs takeTarget_def truthy_def js_string_def)
  have reset: "takeTarget ?q ?st2 = Inr (AppointmentT, OfferDoc ''a1'') \<and>
      getDoc ?st2 (OfferDoc ''a1'') = Some (?d\<lparr>status := ''accepted'', acceptedOn := Some 7\<rparr>) \<and>
      truthy (salespersonId (?d\<lparr>status := ''accepted'', acceptedOn := Some 7\<rparr>))"
    by (simp add: demo_defs takeTarget_def truthy_def js_string_def handleAcceptOffer_def updateDoc_def
        mergeFields_def)
  have first: "handleTakeOrderAppointment (demoCtx ''S1'' 9) ''order o9'' demoStore = (Inr (), ?st1) \<and>
      JSON_parse (demoCtx ''S1'' 9) ''order o9'' =
        Some \<lparr>qr_orderId = Some ''o9'', qr_patientOfferId = None,
              qr_salespersonId = None, qr_doctorId = None\<rparr> \<and>
      distinct (map fst (allOrders demoStore))"
    by (simp add: demo_defs take_defs)
  have "handleTakeOrderAppointment (demoCtx ''S2'' 10) ''offer a1 via S'' demoStore
      = (Inl InvalidState, demoStore)"
    using take_rejected_once_assigned [where c = "demoCtx ''S2'' 10" and qrCodeInput = "''offer a1 via S''"
        and q = ?q and st = demoStore,
        THEN conjunct1, THEN spec, THEN spec, THEN spec, THEN mp, OF _ _ _ _ assigned]
    by (simp add: demoCtx_def demoParse_def blankDoc_def)
  moreover have "handleTakeOrderAppointment (demoCtx ''S2'' 10) ''offer a1 via S'' ?st2
      = (Inl AlreadyAssigned, ?st2)"
    using take_rejected_once_assigned [where c = "demoCtx ''S2'' 10" and qrCodeInput = "''offer a1 via S''"
        and q = ?q and st = ?st2,
        THEN conjunct1, THEN spec, THEN spec, THEN spec, THEN mp, OF _ _ _ _ reset]
    by (simp add: demoCtx_def demoParse_def blankDoc_def)
  moreover have "handleTakeOrderAppointment (demoCtx ''S2'' 10) ''order o9'' ?st1 = (Inl InvalidState, ?st1)"
    using take_rejected_once_assigned [where c = "demoCtx ''S2'' 10" and qrCodeInput = "''order o9''"
        and q = "\<lparr>qr_orderId = Some ''o9'', qr_patientOfferId = None,
                  qr_salespersonId = None, qr_doctorId = None\<rparr>"
        and st = ?st1, THEN conjunct2, THEN spec, THEN spec, THEN mp, OF _ _ _ _ first]
    by (simp add: demoCtx_def demoParse_def)
  ultimately show ?thesis by simp
qed

text \<open>
  C4 as stated fails on the error reported: after \<open>S1\<close> has claimed the offer \<open>a2\<close>, its
  \<open>salespersonId\<close> is set, and the claim of \<open>S2\<close> is refused for the status, not as already
  assigned.
\<close>

theorem second_claim_reports_invalid_state:
  "fst (handleTakeOrderAppointment (demoCtx ''S1'' 9) ''offer a2 from D'' demoStore) = Inr () \<and>
   map_option salespersonId
     (patientOffers (snd (handleTakeOrderAppointment (demoCtx ''S1'' 9) ''offer a2 from D'' demoStore)) ''a2'')
     = Some (Some ''S1'') \<and>
   fst (handleTakeOrderAppointment (demoCtx ''S2'' 10) ''offer a2 from D''
          (snd (handleTakeOrderAppointment (demoCtx ''S1'' 9) ''offer a2 from D'' demoStore)))
     = Inl InvalidState \<and>
   fst (handleTakeOrderAppointment (demoCtx ''S2'' 10) ''offer a2 from D''
          (snd (handleTakeOrderAppointment (demoCtx ''S1'' 9) ''offer a2 from D'' demoStore)))
     \<noteq> Inl AlreadyAssigned"
  by (simp add: demo_defs take_defs)

section \<open>Accepting an offer\<close>

text \<open>
  The two handlers that take a QR text load the record and refuse it outside the source status
  of their edge. The acceptance writes without loading the offer: with a ready session it
  succeeds on every existing offer, whatever its status and its doctor.
\<close>

lemma confirm_checks_status:
  assumes "dbReady c" "userId c \<noteq> []" "qrCodeInput \<noteq> []"
    and "JSON_parse c qrCodeInput = Some q" "confirmTarget c q = Some (t, r)" "getDoc st r = Some d"
    and "(if t = OrderT then customerId d else patientId d) = Some (userId c)"
    and "status d \<noteq> (if t = OrderT then ''in_delivery'' else ''assigned_to_salesperson'')"
  shows "handleConfirmTransferAndPayment c qrCodeInput st = (Inl InvalidState, st)"
  using assms by (cases t) (simp_all add: handleConfirmTransferAndPayment_def confirmLoaded_def)

lemma take_checks_status:
  assumes "dbReady c" "userId c \<noteq> []" "qrCodeInput \<noteq> []"
    and "JSON_parse c qrCodeInput = Some q" "takeTarget q st = Inr (t, r)" "getDoc st r = Some d"
    and "status d \<noteq> (if t = OrderT then ''pending_salesperson_pickup'' else ''accepted'')"
  shows "handleTakeOrderAppointment c qrCodeInput st = (Inl InvalidState, st)"
  using assms by (cases t) (simp_all add: handleTakeOrderAppointment_def takeLoaded_def)

lemma accept_unconditional:
  assumes "dbReady c" "userId c \<noteq> []" "patientOffers st offerId = Some d"
  shows "\<exists>content. handleAcceptOffer c offerId st =
           (Inr content, st\<lparr>patientOffers := (patientOffers st)(offerId \<mapsto> d\<lparr>status := ''accepted'', acceptedOn := Some (now c)\<rparr>)\<rparr>)"
  using assms by (simp add: handleAcceptOffer_def updateDoc_def mergeFields_def)

text \<open>
  C1: a status moves along the documented edges only, and the doctor's acceptance succeeds
  only on a pending appointment. The acceptance does not look at the current status: on the
  offer \<open>a1\<close>, already assigned to the salesperson \<open>S\<close>, it succeeds and sets the status back
  to \<open>accepted\<close>, the salesperson staying assigned.
\<close>

theorem accept_ignores_current_status:
  "map_option status (patientOffers demoStore ''a1'') = Some ''assigned_to_salesperson'' \<and>
   fst (handleAcceptOffer (demoCtx ''D'' 7) ''a1'' demoStore) = Inr ''undefined/a1/undefined/D'' \<and>
   map_option status (patientOffers (snd (handleAcceptOffer (demoCtx ''D'' 7) ''a1'' demoStore)) ''a1'')
     = Some ''accepted'' \<and>
   map_option salespersonId (patientOffers (snd (handleAcceptOffer (demoCtx ''D'' 7) ''a1'' demoStore)) ''a1'')
     = Some (Some ''S'')"
  by (simp add: demo_defs handleAcceptOffer_def updateDoc_def mergeFields_def generateQRCodeContent_def
      js_string_def)

theorem accept_ignores_current_status_witness:
  "dbReady (demoCtx ''D'' 7) \<and> userId (demoCtx ''D'' 7) \<noteq> [] \<and>
   patientOffers demoStore ''a1'' \<noteq> None \<and>
   fst (handleAcceptOffer (demoCtx ''D'' 7) ''a1'' demoStore) \<noteq> Inl InvalidState \<and>
   map_option status (patientOffers (snd (handleAcceptOffer (demoCtx ''D'' 7) ''a1'' demoStore)) ''a1'')
     \<noteq> map_option status (patientOffers demoStore ''a1'')"
  using accept_ignores_current_status
  by (auto simp: demoCtx_def)

section \<open>Minting handoff tokens\<close>

text \<open>
  C9: minting a token any number of times leaves the store unchanged (statuses, assigned
  actors, balances and ledger), and the content minted depends on the user and the item only:
  minting again, at a later time and over any store, gives the same content.
\<close>

theorem minting_leaves_store_unchanged:
  assumes same: "userId c' = userId c" "JSON_stringify c' = JSON_stringify c"
  shows "((\<lambda>s. snd (handleGenerateCustomerQr c i s)) ^^ n) st = st \<and>
         ((\<lambda>s. snd (handleGenerateSalespersonQr c offerId s)) ^^ n) st = st \<and>
         fst (handleGenerateCustomerQr c' i st') = fst (handleGenerateCustomerQr c i st) \<and>
         fst (handleGenerateSalespersonQr c' offerId st') = fst (handleGenerateSalespersonQr c offerId st)"
  using same
  by (simp add: funpow_fixed handleGenerateCustomerQr_def handleGenerateSalespersonQr_def
      generateQRCodeContent_def)

theorem minting_leaves_store_unchanged_witness:
  "((\<lambda>s. snd (handleGenerateCustomerQr (demoCtx ''S'' 5) \<lparr>item_orderId = None, item_id = Some ''a1''\<rparr> s)) ^^ 3)
     demoStore = demoStore \<and>
   ((\<lambda>s. snd (handleGenerateSalespersonQr (demoCtx ''S'' 5) ''a2'' s)) ^^ 3) demoStore = demoStore \<and>
   fst (handleGenerateCustomerQr (demoCtx ''S'' 8) \<lparr>item_orderId = None, item_id = Some ''a1''\<rparr>
          (snd (handleAcceptOffer (demoCtx ''D'' 7) ''a3'' demoStore)))
     = fst (handleGenerateCustomerQr (demoCtx ''S'' 5) \<lparr>item_orderId = None, item_id = Some ''a1''\<rparr> demoStore) \<and>
   fst (handleGenerateCustomerQr (demoCtx ''S'' 5) \<lparr>item_orderId = None, item_id = Some ''a1''\<rparr> demoStore)
     = ''undefined/a1/S/undefined''"
proof -
  have same: "userId (demoCtx ''S'' 8) = userId (demoCtx ''S'' 5)"
    "JSON_stringify (demoCtx ''S'' 8) = JSON_stringify (demoCtx ''S'' 5)"
    by (simp_all add: demoCtx_def)
  have content: "fst (handleGenerateCustomerQr (demoCtx ''S'' 5) \<lparr>item_orderId = None, item_id = Some ''a1''\<rparr> demoStore)
      = ''undefined/a1/S/undefined''"
    by (simp add: handleGenerateCustomerQr_def generateQRCodeContent_def truthy_def demoCtx_def
        demoStringify_def js_string_def)
  show ?thesis
    using minting_leaves_store_unchanged [OF same,
        where i = "\<lparr>item_orderId = None, item_id = Some ''a1''\<rparr>" and n = 3 and st = demoStore
          and offerId = "''a2''" and st' = "snd (handleAcceptOffer (demoCtx ''D'' 7) ''a3'' demoStore)"]
      content
    by simp
qed

section \<open>Donations\<close>

text \<open>
  C7: a donation of 20 by customer \<open>C\<close> to an institution whose balance is 0 leaves the
  institution with 20 and appends exactly one \<open>donation\<close> transaction of amount 20 from \<open>C\<close>
  to the institution; no other profile changes, and the donor is not debited.
\<close>

theorem donate_credits_institution:
  assumes ready: "dbReady c" "userId c = C" "C \<noteq> []" "inst \<noteq> []" "amountToDonate \<noteq> []"
    and amt: "parseInt c amountToDonate = Some 20"
    and prof: "profiles st inst = Some pr" "coinBalance st inst = 0"
  shows "fst (handleDonateCoins c inst amountToDonate st) = Inr () \<and>
         (let st' = snd (handleDonateCoins c inst amountToDonate st) in
            coinBalance st' inst = 20 \<and>
            transactions st' =
              (transactions st)(inst := transactions st inst @
                 [\<lparr>txn_type = ''donation'', amount = 20, sourceId = C, targetId = inst,
                   txn_orderId = None, txn_patientOfferId = None, date = now c,
                   description = ''Donation from customer '' @ C\<rparr>]) \<and>
            (\<forall>u. u \<noteq> inst \<longrightarrow> profiles st' u = profiles st u) \<and>
            coinBalance st C \<le> coinBalance st' C)"
  using assms
  by (auto simp: handleDonateCoins_def creditAndLog_def addCoins_def addTransaction_def js_add_or_def
      round53_def js_string_def coinBalance_def Let_def split: option.splits)

theorem donate_credits_institution_witness:
  "fst (handleDonateCoins (demoCtx ''C'' 4) ''I'' ''20'' demoStore) = Inr () \<and>
   coinBalance demoStore ''I'' = 0 \<and>
   coinBalance (snd (handleDonateCoins (demoCtx ''C'' 4) ''I'' ''20'' demoStore)) ''I'' = 20 \<and>
   transactions (snd (handleDonateCoins (demoCtx ''C'' 4) ''I'' ''20'' demoStore)) ''I''
     = [\<lparr>txn_type = ''donation'', amount = 20, sourceId = ''C'', targetId = ''I'',
         txn_orderId = None, txn_patientOfferId = None, date = 4,
         description = ''Donation from customer C''\<rparr>] \<and>
   profiles (snd (handleDonateCoins (demoCtx ''C'' 4) ''I'' ''20'' demoStore)) ''S'' = profiles demoStore ''S''"
  using donate_credits_institution
    [where c = "demoCtx ''C'' 4" and C = "''C''" and inst = "''I''" and amountToDonate = "''20''"
      and st = demoStore and pr = "\<lparr>coins = Some 0\<rparr>"]
  by (simp add: Let_def demo_defs coinBalance_def)

text \<open>
  C8: a donation whose amount does not parse as a number, or is not positive, is refused with
  a validation error, and nothing is written: no balance changes and no ledger entry is
  appended.
\<close>

theorem donate_invalid_amount_rejected:
  assumes "parseInt c amountToDonate = None \<or> (\<exists>n. parseInt c amountToDonate = Some n \<and> n \<le> 0)"
  shows "handleDonateCoins c inst amountToDonate st = (Inl ValidationError, st)"
  using assms by (auto simp: handleDonateCoins_def)

theorem donate_invalid_amount_rejected_witness:
  "parseInt (demoCtx ''C'' 4) ''abc'' = None \<and>
   handleDonateCoins (demoCtx ''C'' 4) ''I'' ''abc'' demoStore = (Inl ValidationError, demoStore) \<and>
   parseInt (demoCtx ''C'' 4) ''0'' = Some 0 \<and>
   handleDonateCoins (demoCtx ''C'' 4) ''I'' ''0'' demoStore = (Inl ValidationError, demoStore)"
  using donate_invalid_amount_rejected [of "demoCtx ''C'' 4" "''abc''" "''I''" demoStore]
    donate_invalid_amount_rejected [of "demoCtx ''C'' 4" "''0''" "''I''" demoStore]
  by (simp add: demoCtx_def demoParseInt_def)

end
